theory Spec2Isabelle
  imports Complex_Main "HOL-Library.AList"
begin

section \<open>Values of the host's records\<close>

text \<open>
  The migration module (\<^verbatim>\<open>src/modules/migration.js\<close>) reads Actor, Item and Scene records
  that the host keeps as JSON documents. A record is a \<open>json\<close> value; an object keeps its
  properties in insertion order, as a JavaScript object does. The value \<^verbatim>\<open>undefined\<close>,
  which a read of a missing property yields, is \<open>None\<close> of \<open>json option\<close>. A number is a
  rational: the module does no arithmetic, it tests numbers for zero and writes the
  constants 0, 1 and 6.
\<close>

datatype json =
    JNull
  | JBool bool
  | JNum rat
  | JStr string
  | JArr "json list"
  | JObj "(string \<times> json) list"

text \<open>
  The exceptions of the module: a read of an undeclared identifier (\<open>ReferenceError\<close>
  with the identifier), a property read or a method call on a value that has none
  (\<open>TypeError\<close> with the property), \<^verbatim>\<open>JSON.parse\<close> of \<^verbatim>\<open>undefined\<close>, and whatever the
  host raises: an Error object of its own (\<open>HostError\<close>), or any other value that a
  \<^verbatim>\<open>throw\<close> statement was given (\<open>ThrownValue\<close>), which may be a primitive, \<^verbatim>\<open>null\<close> or
  \<^verbatim>\<open>undefined\<close>. The text of an engine's message is not fixed by the language, so an
  error keeps what it is about instead.
\<close>

datatype js_error =
    ReferenceError string
  | TypeError string
  | SyntaxError
  | HostError string
  | ThrownValue "json option"

text \<open>A patch (\<^verbatim>\<open>updateData\<close>) is a plain object from dotted field paths to values.\<close>

type_synonym patch = "(string \<times> json) list"

definition bindE :: "js_error + 'a \<Rightarrow> ('a \<Rightarrow> js_error + 'b) \<Rightarrow> js_error + 'b" where
  "bindE m f = (case m of Inl e \<Rightarrow> Inl e | Inr v \<Rightarrow> f v)"

text \<open>JavaScript's truthiness of a value (\<^verbatim>\<open>if (x)\<close>, \<^verbatim>\<open>!x\<close>).\<close>

fun truthy :: "json option \<Rightarrow> bool" where
  "truthy None = False"
| "truthy (Some JNull) = False"
| "truthy (Some (JBool b)) = b"
| "truthy (Some (JNum n)) = (n \<noteq> 0)"
| "truthy (Some (JStr s)) = (s \<noteq> [])"
| "truthy (Some (JArr xs)) = True"
| "truthy (Some (JObj kvs)) = True"

text \<open>
  The property read \<^verbatim>\<open>x.k\<close>. On \<^verbatim>\<open>undefined\<close> and \<^verbatim>\<open>null\<close> it raises a TypeError; on an
  object it is the own property; the module reads no name that a prototype, an array, a
  string, a number or a boolean defines, so on those the read is \<^verbatim>\<open>undefined\<close>.
\<close>

fun getProp :: "json option \<Rightarrow> string \<Rightarrow> js_error + json option" where
  "getProp None k = Inl (TypeError k)"
| "getProp (Some JNull) k = Inl (TypeError k)"
| "getProp (Some (JObj kvs)) k = Inr (map_of kvs k)"
| "getProp (Some (JBool b)) k = Inr None"
| "getProp (Some (JNum n)) k = Inr None"
| "getProp (Some (JStr s)) k = Inr None"
| "getProp (Some (JArr xs)) k = Inr None"

text \<open>\<^verbatim>\<open>typeof x === "object"\<close>.\<close>

fun typeofObject :: "json option \<Rightarrow> bool" where
  "typeofObject (Some JNull) = True"
| "typeofObject (Some (JArr xs)) = True"
| "typeofObject (Some (JObj kvs)) = True"
| "typeofObject v = False"

text \<open>A read of an identifier that no scope declares.\<close>

definition unbound :: "string \<Rightarrow> js_error + 'a" where
  "unbound x = Inl (ReferenceError x)"

text \<open>
  The call \<^verbatim>\<open>x.hasOwnProperty(arg)\<close>, in the order JavaScript evaluates it: the read of
  the method on \<open>x\<close> (a TypeError on \<^verbatim>\<open>undefined\<close> and \<^verbatim>\<open>null\<close>), then the argument, then
  the call. An object that has a property \<^verbatim>\<open>hasOwnProperty\<close> of its own shadows the method
  with a value that is not a function. The names the module asks for are neither an index
  nor \<^verbatim>\<open>length\<close>, so an array, a string, a number and a boolean have none of them.
\<close>

fun hasOwnProperty :: "json option \<Rightarrow> js_error + string \<Rightarrow> js_error + bool" where
  "hasOwnProperty None arg = Inl (TypeError ''hasOwnProperty'')"
| "hasOwnProperty (Some JNull) arg = Inl (TypeError ''hasOwnProperty'')"
| "hasOwnProperty (Some (JObj kvs)) arg =
     bindE arg (\<lambda>k.
       if map_of kvs ''hasOwnProperty'' \<noteq> None then Inl (TypeError ''hasOwnProperty'')
       else Inr (map_of kvs k \<noteq> None))"
| "hasOwnProperty (Some (JArr xs)) arg = bindE arg (\<lambda>k. Inr False)"
| "hasOwnProperty (Some (JBool b)) arg = bindE arg (\<lambda>k. Inr False)"
| "hasOwnProperty (Some (JNum n)) arg = bindE arg (\<lambda>k. Inr False)"
| "hasOwnProperty (Some (JStr s)) arg = bindE arg (\<lambda>k. Inr False)"

text \<open>
  The assignment \<^verbatim>\<open>x.k = v\<close> and \<^verbatim>\<open>delete x.k\<close>. The module is an ES module, so strict: an
  assignment to a property of a primitive or of \<^verbatim>\<open>null\<close> raises a TypeError. A named
  property put on an array is no part of the array's JSON value. \<^verbatim>\<open>delete\<close> is only
  reached on an object.
\<close>

fun putProp :: "json \<Rightarrow> string \<Rightarrow> json \<Rightarrow> js_error + json" where
  "putProp (JObj kvs) k v = Inr (JObj (AList.update k v kvs))"
| "putProp (JArr xs) k v = Inr (JArr xs)"
| "putProp x k v = Inl (TypeError k)"

fun deleteProp :: "json \<Rightarrow> string \<Rightarrow> json" where
  "deleteProp (JObj kvs) k = JObj (AList.delete k kvs)"
| "deleteProp x k = x"

text \<open>
  \<^verbatim>\<open>xs.map(f)\<close> where \<open>f\<close> may raise: the elements in order, up to the first exception.
\<close>

fun mapE :: "('a \<Rightarrow> js_error + 'b) \<Rightarrow> 'a list \<Rightarrow> js_error + 'b list" where
  "mapE f [] = Inr []"
| "mapE f (x # xs) = bindE (f x) (\<lambda>y. bindE (mapE f xs) (\<lambda>ys. Inr (y # ys)))"

text \<open>\<^verbatim>\<open>isObjectEmpty\<close> of the host, on a plain object: it has no key.\<close>

definition isObjectEmpty :: "patch \<Rightarrow> bool" where
  "isObjectEmpty updateData = (map fst updateData = [])"

text \<open>
  The assignment \<^verbatim>\<open>updateData[k] = v\<close>: a key the object has keeps its place, a new key
  goes last.
\<close>

definition setKey :: "string \<Rightarrow> json \<Rightarrow> patch \<Rightarrow> patch" where
  "setKey k v updateData = AList.update k v updateData"

section \<open>The Item Patch Function\<close>

text \<open>\<^verbatim>\<open>_addItemModSpeed\<close> (lines 254 to 263).\<close>

definition addItemModSpeed :: "json \<Rightarrow> patch \<Rightarrow> js_error + patch" where
  "addItemModSpeed item updateData =
     bindE (getProp (Some item) ''type'') (\<lambda>ty.
       if ty = Some (JStr ''focus'') \<or> ty = Some (JStr ''honorifics'')
          \<or> ty = Some (JStr ''relationship'') \<or> ty = Some (JStr ''membership'')
          \<or> ty = Some (JStr ''stunts'')
       then Inr updateData
       else
         bindE (getProp (Some item) ''data'') (\<lambda>d.
         bindE (getProp d ''itemMods'') (\<lambda>itemMods.
         bindE (getProp itemMods ''speed'') (\<lambda>speed.
           if truthy speed then Inr updateData
           else Inr (setKey ''data.itemMods.speed.value'' (JNum 0)
                    (setKey ''data.itemMods.speed.isActive'' (JBool False)
                    (setKey ''data.itemMods.speed'' (JObj []) updateData)))))))"

text \<open>\<^verbatim>\<open>_addExtraPowerData\<close> (lines 271 to 287).\<close>

definition addExtraPowerData :: "json \<Rightarrow> patch \<Rightarrow> js_error + patch" where
  "addExtraPowerData item updateData =
     bindE (getProp (Some item) ''type'') (\<lambda>ty.
       if ty \<noteq> Some (JStr ''power'') then Inr updateData
       else
         bindE (getProp (Some item) ''data'') (\<lambda>d.
         bindE (getProp d ''ablFatigue'') (\<lambda>ablFatigue.
           if truthy ablFatigue then Inr updateData
           else Inr (setKey ''data.damageResisted.dmgAbl'' (JStr ''will'')
                    (setKey ''data.damageResisted.extraValue'' (JNum 0)
                    (setKey ''data.damageResisted.diceType'' (JNum 6)
                    (setKey ''data.damageResisted.nrDice'' (JNum 1)
                    (setKey ''data.damageResisted'' (JObj [])
                    (setKey ''data.testFocus'' (JStr [])
                    (setKey ''data.testAbl'' (JStr ''will'')
                    (setKey ''data.hasTest'' (JBool False)
                    (setKey ''data.ablFatigue'' (JStr ''will'')
                    (setKey ''data.causeHealing'' (JBool False) updateData)))))))))))))"

text \<open>\<^verbatim>\<open>_addItemValidResistedDmgAbl\<close> (lines 293 to 301).\<close>

definition addItemValidResistedDmgAbl :: "json \<Rightarrow> patch \<Rightarrow> js_error + patch" where
  "addItemValidResistedDmgAbl item updateData =
     bindE (getProp (Some item) ''type'') (\<lambda>ty.
       if ty \<noteq> Some (JStr ''power'') then Inr updateData
       else
         bindE (getProp (Some item) ''data'') (\<lambda>d.
         bindE (getProp d ''damageResisted'') (\<lambda>damageResisted.
           if truthy damageResisted then
             bindE (getProp damageResisted ''dmgAbl'') (\<lambda>dmgAbl.
               if truthy dmgAbl then Inr updateData
               else Inr (setKey ''data.damageResisted.dmgAbl'' (JStr ''will'') updateData))
           else Inr updateData)))"

text \<open>\<^verbatim>\<open>_addItemForceAbl\<close> (lines 308 to 315).\<close>

definition addItemForceAbl :: "json \<Rightarrow> patch \<Rightarrow> js_error + patch" where
  "addItemForceAbl item updateData =
     bindE (getProp (Some item) ''type'') (\<lambda>ty.
       if ty \<noteq> Some (JStr ''power'') then Inr updateData
       else
         bindE (getProp (Some item) ''data'') (\<lambda>d.
         bindE (getProp d ''itemForceAbl'') (\<lambda>itemForceAbl.
           if truthy itemForceAbl then Inr updateData
           else Inr (setKey ''data.itemForceAbl'' (JStr ''will'') updateData))))"

text \<open>\<^verbatim>\<open>migrateItemData\<close> (lines 157 to 164): the four helpers in the source's order.\<close>

definition migrateItemData :: "json \<Rightarrow> js_error + patch" where
  "migrateItemData item =
     bindE (addItemModSpeed item []) (\<lambda>u1.
     bindE (addItemValidResistedDmgAbl item u1) (\<lambda>u2.
     bindE (addExtraPowerData item u2) (\<lambda>u3.
     addItemForceAbl item u3)))"

section \<open>The Actor Patch Function\<close>

text \<open>
  What the module calls of the host's library and cannot see: \<^verbatim>\<open>mergeObject(original, other)\<close>,
  and whether \<^verbatim>\<open>new Token(t).actor\<close> resolves to an actor. Both may raise.
\<close>

record host_api =
  mergeObject :: "json \<Rightarrow> patch \<Rightarrow> js_error + json"
  tokenActor :: "json \<Rightarrow> js_error + bool"

text \<open>The list of lines 206 and 207, as the source spells it.\<close>

definition conditions :: "string list" where
  "conditions = [''blinded'', ''deafened'', ''exhausted'', ''fatigued'', ''freefalling'',
     ''helpless'', ''hindred'', ''prone'', ''restrained'', ''injured'', ''wounded'',
     ''unconscious'', ''dying'']"

text \<open>The loop of lines 213 to 216: it runs over the whole list, with no \<^verbatim>\<open>break\<close>.\<close>

fun completeLoop :: "json option \<Rightarrow> string list \<Rightarrow> bool \<Rightarrow> js_error + bool" where
  "completeLoop c [] isComplete = Inr isComplete"
| "completeLoop c (condition # rest) isComplete =
     bindE (hasOwnProperty c (Inr condition)) (\<lambda>has.
       completeLoop c rest (if \<not> has then False else isComplete))"

text \<open>
  The loop of lines 225 to 229. Its body assigns to \<^verbatim>\<open>udpateData[condString]\<close>, an
  identifier that nothing declares, so the first iteration raises; \<^verbatim>\<open>updateData\<close> is not
  written.
\<close>

fun flagLoop :: "string list \<Rightarrow> patch \<Rightarrow> js_error + patch" where
  "flagLoop [] updateData = Inr updateData"
| "flagLoop (cond # rest) updateData =
     bindE (unbound ''udpateData'' :: js_error + patch) (\<lambda>udpateData.
       flagLoop rest updateData)"

text \<open>
  \<^verbatim>\<open>_addActorConditions\<close> (lines 203 to 233). The helper deletes \<^verbatim>\<open>actor.data.conditions\<close>
  on the record it was handed, so it returns the record as it leaves it, next to its
  result. \<open>conditionsTail\<close> is lines 223 to 232, which read the record again.
\<close>

definition deleteConditions :: "json \<Rightarrow> json" where
  "deleteConditions actor =
     (case actor of
        JObj kvs \<Rightarrow>
          (case map_of kvs ''data'' of
             Some d \<Rightarrow> JObj (AList.update ''data'' (deleteProp d ''conditions'') kvs)
           | None \<Rightarrow> actor)
      | _ \<Rightarrow> actor)"

definition conditionsTail :: "json \<Rightarrow> patch \<Rightarrow> js_error + patch" where
  "conditionsTail actor updateData =
     bindE (getProp (Some actor) ''data'') (\<lambda>d.
     bindE (getProp d ''conditions'') (\<lambda>c.
       if \<not> truthy c then flagLoop conditions (setKey ''data.conditions'' (JObj []) updateData)
       else Inr updateData))"

definition addActorConditions :: "json \<Rightarrow> patch \<Rightarrow> json \<times> (js_error + patch)" where
  "addActorConditions actor updateData =
     (case getProp (Some actor) ''type'' of
        Inl e \<Rightarrow> (actor, Inl e)
      | Inr ty \<Rightarrow>
          if ty \<noteq> Some (JStr ''char'') then (actor, Inr updateData)
          else
            (case bindE (getProp (Some actor) ''data'') (\<lambda>d. getProp d ''conditions'') of
               Inl e \<Rightarrow> (actor, Inl e)
             | Inr c \<Rightarrow>
                 if truthy c then
                   if typeofObject c then
                     (case completeLoop c conditions True of
                        Inl e \<Rightarrow> (actor, Inl e)
                      | Inr isComplete \<Rightarrow>
                          if isComplete then (actor, Inr updateData)
                          else (actor, conditionsTail actor updateData))
                   else (deleteConditions actor,
                         conditionsTail (deleteConditions actor) updateData)
                 else (actor, conditionsTail actor updateData)))"

text \<open>
  \<^verbatim>\<open>_addVehicleCustomDmg\<close> (lines 240 to 247). The arguments of both calls are the
  identifiers \<^verbatim>\<open>customSideswipeDmg\<close> and \<^verbatim>\<open>customCollisionDmg\<close>, not strings.
\<close>

definition addVehicleCustomDmg :: "json \<Rightarrow> patch \<Rightarrow> js_error + patch" where
  "addVehicleCustomDmg actor updateData =
     bindE (getProp (Some actor) ''type'') (\<lambda>ty.
       if ty \<noteq> Some (JStr ''vehicle'') then Inr updateData
       else
         bindE (getProp (Some actor) ''data'') (\<lambda>d.
         bindE (hasOwnProperty d (unbound ''customSideswipeDmg'')) (\<lambda>has1.
         let u1 = (if \<not> has1 then setKey ''data.customSideswipeDmg'' (JNum 1) updateData
                   else updateData)
         in
         bindE (getProp (Some actor) ''data'') (\<lambda>d'.
         bindE (hasOwnProperty d' (unbound ''customCollisionDmg'')) (\<lambda>has2.
           Inr (if \<not> has2 then setKey ''data.customCollisionDmg'' (JNum 1) u1
                else u1))))))"

text \<open>
  The callback of \<^verbatim>\<open>actor.items.map\<close> (lines 136 to 145): the item of the new list, and
  whether it set \<^verbatim>\<open>hasItemUpdates\<close>.
\<close>

definition migrateOwnedItem :: "host_api \<Rightarrow> json \<Rightarrow> js_error + json \<times> bool" where
  "migrateOwnedItem api i =
     bindE (migrateItemData i) (\<lambda>itemUpdate.
       if \<not> isObjectEmpty itemUpdate then
         bindE (mergeObject api i itemUpdate) (\<lambda>merged. Inr (merged, True))
       else Inr (i, False))"

text \<open>
  \<^verbatim>\<open>migrateActorData\<close> (lines 126 to 148). A truthy \<^verbatim>\<open>actor.items\<close> that is no array has
  no \<^verbatim>\<open>map\<close> method.
\<close>

definition migrateActorData :: "host_api \<Rightarrow> json \<Rightarrow> json \<times> (js_error + patch)" where
  "migrateActorData api actor =
     (case addActorConditions actor [] of
        (actor1, Inl e) \<Rightarrow> (actor1, Inl e)
      | (actor1, Inr u1) \<Rightarrow>
          (actor1,
           bindE (addVehicleCustomDmg actor1 u1) (\<lambda>u2.
           bindE (getProp (Some actor1) ''items'') (\<lambda>its.
             if \<not> truthy its then Inr u2
             else
               (case its of
                  Some (JArr xs) \<Rightarrow>
                    bindE (mapE (migrateOwnedItem api) xs) (\<lambda>rs.
                      Inr (if list_ex snd rs then setKey ''items'' (JArr (map fst rs)) u2
                           else u2))
                | _ \<Rightarrow> Inl (TypeError ''map''))))))"

section \<open>The Scene Patch Function\<close>

text \<open>
  \<^verbatim>\<open>duplicate\<close> of the host is \<^verbatim>\<open>JSON.parse(JSON.stringify(x))\<close>: a deep copy of a JSON value,
  which is the value, and a SyntaxError on \<^verbatim>\<open>undefined\<close>.
\<close>

definition duplicate :: "json option \<Rightarrow> js_error + json" where
  "duplicate x = (case x of None \<Rightarrow> Inl SyntaxError | Some v \<Rightarrow> Inr v)"

text \<open>
  The test of line 178, \<^verbatim>\<open>!t.actorId || t.actorLink || !t.actorData.data\<close>, with its short
  circuits: a later read happens only when the earlier disjuncts are false.
\<close>

definition clearsToken :: "json \<Rightarrow> js_error + bool" where
  "clearsToken t =
     bindE (getProp (Some t) ''actorId'') (\<lambda>actorId.
       if \<not> truthy actorId then Inr True
       else
         bindE (getProp (Some t) ''actorLink'') (\<lambda>actorLink.
           if truthy actorLink then Inr True
           else
             bindE (getProp (Some t) ''actorData'') (\<lambda>actorData.
             bindE (getProp actorData ''data'') (\<lambda>d. Inr (\<not> truthy d)))))"

text \<open>
  The callback of \<^verbatim>\<open>tokens.map\<close> (lines 177 to 191). The Token object wraps the record it
  is built from, so \<^verbatim>\<open>token.data.actorData\<close> is \<^verbatim>\<open>t.actorData\<close>.
\<close>

definition migrateToken :: "host_api \<Rightarrow> json \<Rightarrow> js_error + json" where
  "migrateToken api t =
     bindE (clearsToken t) (\<lambda>clear.
       if clear then putProp t ''actorData'' (JObj [])
       else
         bindE (tokenActor api t) (\<lambda>hasActor.
           if \<not> hasActor then
             bindE (putProp t ''actorId'' JNull) (\<lambda>t1. putProp t1 ''actorData'' (JObj []))
           else
             bindE (getProp (Some t) ''actorLink'') (\<lambda>actorLink.
               if \<not> truthy actorLink then
                 bindE (getProp (Some t) ''actorData'') (\<lambda>actorData.
                   (case actorData of
                      None \<Rightarrow> Inl (TypeError ''type'')
                    | Some ad \<Rightarrow>
                        bindE (snd (migrateActorData api ad)) (\<lambda>updateData.
                        bindE (mergeObject api (fst (migrateActorData api ad)) updateData)
                          (\<lambda>merged. putProp t ''actorData'' merged))))
               else Inr t)))"

text \<open>\<^verbatim>\<open>migrateSceneData\<close> (lines 174 to 193).\<close>

definition migrateSceneData :: "host_api \<Rightarrow> json \<Rightarrow> js_error + patch" where
  "migrateSceneData api scene =
     bindE (getProp (Some scene) ''tokens'') (\<lambda>ts.
     bindE (duplicate ts) (\<lambda>tokens.
       (case tokens of
          JArr xs \<Rightarrow> bindE (mapE (migrateToken api) xs) (\<lambda>ys. Inr [(''tokens'', JArr ys)])
        | _ \<Rightarrow> Inl (TypeError ''map''))))"

section \<open>The host, the orchestrator and the Compendium Walker\<close>

text \<open>
  An entity of a host collection or of a pack: its \<^verbatim>\<open>name\<close>, its \<^verbatim>\<open>_id\<close> and its \<^verbatim>\<open>data\<close>.
  A pack handle: \<^verbatim>\<open>metadata.package\<close>, \<^verbatim>\<open>metadata.entity\<close>, \<^verbatim>\<open>collection\<close>, and the entries
  that \<^verbatim>\<open>getContent()\<close> returns after the host's own \<^verbatim>\<open>migrate()\<close>. The world: the three
  collections, the packs and \<^verbatim>\<open>game.system.data.version\<close>.
\<close>

record entity =
  name :: string
  ident :: string
  data :: json

record pack =
  metadata_package :: string
  metadata_entity :: string
  collection :: string
  content :: "entity list"

record game =
  actors :: "entity list"
  items :: "entity list"
  scenes :: "entity list"
  packs :: "pack list"
  version :: string

text \<open>
  The calls into the host: \<^verbatim>\<open>ui.notifications.info\<close>, \<^verbatim>\<open>e.update(updateData,
  {enforceTypes: false})\<close> on an entity \<open>e\<close>, and on the pack of a collection
  \<^verbatim>\<open>configure({locked: b})\<close>, \<^verbatim>\<open>migrate()\<close>, \<^verbatim>\<open>getContent()\<close> and
  \<^verbatim>\<open>updateEntity(updateData)\<close>, and \<^verbatim>\<open>game.settings.set\<close>. The host decides from the calls
  made so far whether a call raises.
\<close>

datatype call =
    NotifyInfo string
  | Update entity patch
  | Configure string bool
  | Migrate string
  | GetContent string
  | UpdateEntity string patch
  | SettingsSet string string string

type_synonym host_outcome = "call list \<Rightarrow> call \<Rightarrow> js_error option"

text \<open>
  What \<^verbatim>\<open>console.log\<close> and \<^verbatim>\<open>console.error\<close> print. \<open>ConsoleError prefix err\<close> is the
  error \<open>err\<close> after \<^verbatim>\<open>err.message = prefix + err.message\<close>.
\<close>

datatype console_entry =
    ConsoleLog string
  | ConsoleError string js_error

text \<open>
  The state the run changes: the host calls in order, each with its outcome, the console,
  and the \<^verbatim>\<open>locked\<close> flag of every pack, by collection.
\<close>

record host_state =
  calls :: "(call \<times> js_error option) list"
  console :: "console_entry list"
  locked :: "string \<Rightarrow> bool"

text \<open>
  A statement takes the state and returns the exception it raises, if any, with the state
  it leaves.
\<close>

type_synonym stmt = "host_state \<Rightarrow> js_error option \<times> host_state"

definition skip :: stmt where
  "skip st = (None, st)"

definition throw :: "js_error \<Rightarrow> stmt" where
  "throw err st = (Some err, st)"

definition seq :: "stmt \<Rightarrow> stmt \<Rightarrow> stmt" where
  "seq s1 s2 st = (case s1 st of (None, st') \<Rightarrow> s2 st' | (Some err, st') \<Rightarrow> (Some err, st'))"

definition tryCatch :: "stmt \<Rightarrow> (js_error \<Rightarrow> stmt) \<Rightarrow> stmt" where
  "tryCatch body handler st =
     (case body st of (None, st') \<Rightarrow> (None, st') | (Some err, st') \<Rightarrow> handler err st')"

fun forOf :: "('a \<Rightarrow> stmt) \<Rightarrow> 'a list \<Rightarrow> stmt" where
  "forOf body [] st = (None, st)"
| "forOf body (x # xs) st =
     (case body x st of (None, st') \<Rightarrow> forOf body xs st' | (Some err, st') \<Rightarrow> (Some err, st'))"

text \<open>An awaited host call raises what the host raises.\<close>

definition hostCall :: "host_outcome \<Rightarrow> call \<Rightarrow> stmt" where
  "hostCall orc c st =
     (let r = orc (map fst (calls st)) c in (r, st\<lparr>calls := calls st @ [(c, r)]\<rparr>))"

text \<open>
  A call of an asynchronous host function that is not awaited: the call is made, and a
  failure rejects a promise nobody reads.
\<close>

definition unawaited :: "stmt \<Rightarrow> stmt" where
  "unawaited s st = (None, snd (s st))"

definition consoleLog :: "string \<Rightarrow> stmt" where
  "consoleLog msg st = (None, st\<lparr>console := console st @ [ConsoleLog msg]\<rparr>)"

text \<open>\<^verbatim>\<open>console.error(err)\<close> of an error that carries its annotation.\<close>

definition consoleError :: "string \<Rightarrow> js_error \<Rightarrow> stmt" where
  "consoleError prefix err st = (None, st\<lparr>console := console st @ [ConsoleError prefix err]\<rparr>)"

text \<open>
  Whether what was thrown is an object. Every error of the engine and every Error of the
  host is one; a thrown JSON value is one when it is a mapping or a list.
\<close>

fun isObjectError :: "js_error \<Rightarrow> bool" where
  "isObjectError (ThrownValue (Some (JObj kvs))) = True"
| "isObjectError (ThrownValue (Some (JArr xs))) = True"
| "isObjectError (ThrownValue v) = False"
| "isObjectError err = True"

text \<open>
  The catch handlers (lines 16 to 19, 30 to 33, 44 to 47 and 105 to 108):
  \<^verbatim>\<open>err.message = prefix + err.message; console.error(err)\<close>. The module is an ES module,
  so strict: when what was thrown is a primitive the assignment raises a TypeError, and
  when it is \<^verbatim>\<open>null\<close> or \<^verbatim>\<open>undefined\<close> the read of \<^verbatim>\<open>err.message\<close> does. That TypeError is
  raised inside the handler, so it leaves the loop.
\<close>

definition catchHandler :: "string \<Rightarrow> js_error \<Rightarrow> stmt" where
  "catchHandler prefix err =
     (if isObjectError err then consoleError prefix err else throw (TypeError ''message''))"

text \<open>\<^verbatim>\<open>pack.configure({locked: b})\<close>: the host sets the flag when the call succeeds.\<close>

definition configure :: "host_outcome \<Rightarrow> pack \<Rightarrow> bool \<Rightarrow> stmt" where
  "configure orc p b st =
     (case hostCall orc (Configure (collection p) b) st of
        (None, st') \<Rightarrow> (None, st'\<lparr>locked := (locked st')(collection p := b)\<rparr>)
      | (Some err, st') \<Rightarrow> (Some err, st'))"

text \<open>
  The body of a try block that computes a patch and goes on with it: an exception of the
  computation is raised in the block.
\<close>

definition withPatch :: "js_error + patch \<Rightarrow> (patch \<Rightarrow> stmt) \<Rightarrow> stmt" where
  "withPatch r k = (case r of Inl err \<Rightarrow> throw err | Inr updateData \<Rightarrow> k updateData)"

text \<open>
  The bodies of the three loops of \<^verbatim>\<open>migrateWorld\<close> (lines 9 to 48). A loop reads the
  record of an entity once; what the Actor Patch Function leaves of the record is not
  read again.
\<close>

definition migrateWorldActor :: "host_api \<Rightarrow> host_outcome \<Rightarrow> entity \<Rightarrow> stmt" where
  "migrateWorldActor api orc a =
     tryCatch
       (withPatch (snd (migrateActorData api (data a))) (\<lambda>updateData.
          if \<not> isObjectEmpty updateData then
            seq (consoleLog (''Migrating Actor entity '' @ name a))
                (hostCall orc (Update a updateData))
          else skip))
       (\<lambda>err. catchHandler (''Failed AGE System migration for Actor '' @ name a @ '': '') err)"

definition migrateWorldItem :: "host_outcome \<Rightarrow> entity \<Rightarrow> stmt" where
  "migrateWorldItem orc i =
     tryCatch
       (withPatch (migrateItemData (data i)) (\<lambda>updateData.
          if \<not> isObjectEmpty updateData then
            seq (consoleLog (''Migrating Item entity '' @ name i))
                (hostCall orc (Update i updateData))
          else skip))
       (\<lambda>err. catchHandler (''Failed AGE System migration for Item '' @ name i @ '': '') err)"

definition migrateWorldScene :: "host_api \<Rightarrow> host_outcome \<Rightarrow> entity \<Rightarrow> stmt" where
  "migrateWorldScene api orc s =
     tryCatch
       (withPatch (migrateSceneData api (data s)) (\<lambda>updateData.
          if \<not> isObjectEmpty updateData then
            seq (consoleLog (''Migrating Scene entity '' @ name s))
                (hostCall orc (Update s updateData))
          else skip))
       (\<lambda>err. catchHandler (''Failed age-system migration for Scene '' @ name s @ '': '') err)"

text \<open>The \<^verbatim>\<open>switch\<close> of lines 85 to 95; \<^verbatim>\<open>updateData\<close> starts as the empty object.\<close>

definition entryPatch :: "host_api \<Rightarrow> string \<Rightarrow> entity \<Rightarrow> js_error + patch" where
  "entryPatch api ety ent =
     (if ety = ''Actor'' then snd (migrateActorData api (data ent))
      else if ety = ''Item'' then migrateItemData (data ent)
      else if ety = ''Scene'' then migrateSceneData api (data ent)
      else Inr [])"

text \<open>The body of the loop of \<^verbatim>\<open>migrateCompendium\<close> (lines 82 to 109).\<close>

definition migrateCompendiumEntry :: "host_api \<Rightarrow> host_outcome \<Rightarrow> pack \<Rightarrow> entity \<Rightarrow> stmt" where
  "migrateCompendiumEntry api orc p ent =
     tryCatch
       (withPatch (entryPatch api (metadata_entity p) ent) (\<lambda>updateData.
          if isObjectEmpty updateData then skip
          else
            seq (hostCall orc
                   (UpdateEntity (collection p) (setKey ''_id'' (JStr (ident ent)) updateData)))
                (consoleLog (''Migrated '' @ metadata_entity p @ '' entity '' @ name ent
                   @ '' in Compendium '' @ collection p))))
       (\<lambda>err. catchHandler (''Failed age-system system migration for entity '' @ name ent
          @ '' in pack '' @ collection p @ '': '') err)"

text \<open>
  \<^verbatim>\<open>migrateCompendium\<close> (lines 69 to 114). The last \<^verbatim>\<open>configure\<close> is not awaited.
\<close>

definition migrateCompendium :: "host_api \<Rightarrow> host_outcome \<Rightarrow> pack \<Rightarrow> stmt" where
  "migrateCompendium api orc p st =
     (if metadata_entity p \<notin> set [''Actor'', ''Item'', ''Scene''] then skip st
      else
        (let wasLocked = locked st (collection p) in
         seq (configure orc p False)
        (seq (hostCall orc (Migrate (collection p)))
        (seq (hostCall orc (GetContent (collection p)))
        (seq (forOf (migrateCompendiumEntry api orc p) (content p))
        (seq (unawaited (configure orc p wasLocked))
             (consoleLog (''Migrated all '' @ metadata_entity p
                @ '' entities from Compendium '' @ collection p)))))) st))"

text \<open>\<^verbatim>\<open>migrateWorld\<close> (lines 5 to 60). \<^verbatim>\<open>game.settings.set\<close> is not awaited.\<close>

definition migrateWorldPack :: "host_api \<Rightarrow> host_outcome \<Rightarrow> pack \<Rightarrow> stmt" where
  "migrateWorldPack api orc p =
     (if metadata_package p \<noteq> ''world'' then skip
      else if metadata_entity p \<notin> set [''Actor'', ''Item'', ''Scene''] then skip
      else migrateCompendium api orc p)"

definition migrateWorld :: "host_api \<Rightarrow> host_outcome \<Rightarrow> game \<Rightarrow> stmt" where
  "migrateWorld api orc g =
     seq (hostCall orc (NotifyInfo (''Applying AGE System Migration for version '' @ version g
            @ ''. Please be patient and do not close your game or shut down your server.'')))
    (seq (forOf (migrateWorldActor api orc) (actors g))
    (seq (forOf (migrateWorldItem orc) (items g))
    (seq (forOf (migrateWorldScene api orc) (scenes g))
    (seq (forOf (migrateWorldPack api orc) (packs g))
    (seq (unawaited (hostCall orc
            (SettingsSet ''age-system'' ''systemMigrationVersion'' (version g))))
         (hostCall orc (NotifyInfo (''AGE System Migration to version '' @ version g
            @ '' completed!''))))))))"

section \<open>Vocabulary of the specification and example inputs\<close>

text \<open>
  The subtypes that get no speed modifier, the keys of the speed default, and the keys of
  the power-only fields, as the specification lists them.
\<close>

definition speedExcluded :: "string list" where
  "speedExcluded = [''focus'', ''honorifics'', ''relationship'', ''membership'', ''stunts'']"

definition speedKeys :: "string list" where
  "speedKeys = [''data.itemMods.speed'', ''data.itemMods.speed.isActive'',
     ''data.itemMods.speed.value'']"

definition powerKeys :: "string list" where
  "powerKeys = [''data.causeHealing'', ''data.ablFatigue'', ''data.hasTest'', ''data.testAbl'',
     ''data.testFocus'', ''data.damageResisted'', ''data.damageResisted.nrDice'',
     ''data.damageResisted.diceType'', ''data.damageResisted.extraValue'',
     ''data.damageResisted.dmgAbl'', ''data.itemForceAbl'']"

text \<open>
  A token, given by its properties, that the specification says is cleared: it has no
  actor id, or it is actor-linked, or its override payload carries no data. The last
  disjunct is the source's \<^verbatim>\<open>!t.actorData.data\<close> where that read succeeds.
\<close>

definition clearable :: "(string \<times> json) list \<Rightarrow> bool" where
  "clearable tkvs =
     (\<not> truthy (map_of tkvs ''actorId'')
      \<or> truthy (map_of tkvs ''actorLink'')
      \<or> (\<exists>d. getProp (map_of tkvs ''actorData'') ''data'' = Inr d \<and> \<not> truthy d))"

text \<open>
  A host for the examples: \<^verbatim>\<open>mergeObject\<close> hands the original back, and every token
  resolves to an actor.
\<close>

definition lenientHost :: host_api where
  "lenientHost =
     \<lparr>mergeObject = (\<lambda>original other. Inr original), tokenActor = (\<lambda>t. Inr True)\<rparr>"

text \<open>Example records.\<close>

definition charActor :: json where
  "charActor = JObj [(''type'', JStr ''char''), (''data'', JObj [])]"

definition vehicleActor :: json where
  "vehicleActor = JObj [(''type'', JStr ''vehicle''), (''data'', JObj [])]"

definition vehicleActorMigrated :: "(string \<times> json) list" where
  "vehicleActorMigrated =
     [(''type'', JStr ''vehicle''),
      (''data'', JObj [(''customSideswipeDmg'', JNum 1), (''customCollisionDmg'', JNum 1)])]"

definition powerItem :: json where
  "powerItem = JObj [(''type'', JStr ''power''), (''data'', JObj [])]"

definition focusItem :: json where
  "focusItem = JObj [(''type'', JStr ''focus''), (''data'', JObj [(''itemMods'', JObj [])])]"

definition weaponItem :: json where
  "weaponItem = JObj [(''type'', JStr ''weapon''), (''data'', JObj [(''itemMods'', JObj [])])]"

definition bareWeaponItem :: "(string \<times> json) list" where
  "bareWeaponItem = [(''type'', JStr ''weapon''), (''data'', JObj [])]"

definition looseToken :: "(string \<times> json) list" where
  "looseToken =
     [(''actorId'', JNull), (''actorLink'', JBool False),
      (''actorData'', JObj [(''data'', JObj [(''hp'', JNum 3)])])]"

definition brokenToken :: json where
  "brokenToken =
     JObj [(''actorId'', JStr ''a1''), (''actorLink'', JBool False),
           (''actorData'', JObj [(''data'', JObj [(''hp'', JNum 3)]),
              (''items'', JArr [JObj bareWeaponItem])])]"

definition sceneOfLooseToken :: "(string \<times> json) list" where
  "sceneOfLooseToken = [(''tokens'', JArr [JObj looseToken])]"

definition sceneWithBrokenSibling :: json where
  "sceneWithBrokenSibling = JObj [(''tokens'', JArr [JObj looseToken, brokenToken])]"

text \<open>
  Properties of statements. A statement maintains a relation between states when every
  run of it relates the state before to the state after; it never raises when no run of
  it ends in an exception.
\<close>

definition maintains :: "(host_state \<Rightarrow> host_state \<Rightarrow> bool) \<Rightarrow> stmt \<Rightarrow> bool" where
  "maintains R s = (\<forall>st. R st (snd (s st)))"


text \<open>The later state has every host call and every console line of the earlier one.\<close>

definition grows :: "host_state \<Rightarrow> host_state \<Rightarrow> bool" where
  "grows st st' =
     (set (calls st) \<subseteq> set (calls st') \<and> set (console st) \<subseteq> set (console st'))"



text \<open>
  A host call passes the emptiness gate of a world: a write call carries a patch that is
  not empty and that is the patch computed for its entity (for a pack entry, that patch
  tagged with the entry's \<^verbatim>\<open>_id\<close>); any other call passes.
\<close>

fun gatedWrite :: "host_api \<Rightarrow> game \<Rightarrow> call \<Rightarrow> bool" where
  "gatedWrite api g (Update e p) =
     (\<not> isObjectEmpty p
      \<and> ((e \<in> set (actors g) \<and> snd (migrateActorData api (data e)) = Inr p)
         \<or> (e \<in> set (items g) \<and> migrateItemData (data e) = Inr p)
         \<or> (e \<in> set (scenes g) \<and> migrateSceneData api (data e) = Inr p)))"
| "gatedWrite api g (UpdateEntity c p) =
     (\<exists>pk\<in>set (packs g). \<exists>ent\<in>set (content pk). \<exists>q.
        c = collection pk \<and> entryPatch api (metadata_entity pk) ent = Inr q
        \<and> \<not> isObjectEmpty q \<and> p = setKey ''_id'' (JStr (ident ent)) q)"
| "gatedWrite api g c = True"

definition callsGated :: "host_api \<Rightarrow> game \<Rightarrow> host_state \<Rightarrow> bool" where
  "callsGated api g st = (\<forall>(c, r)\<in>set (calls st). gatedWrite api g c)"

definition keepsGated :: "host_api \<Rightarrow> game \<Rightarrow> host_state \<Rightarrow> host_state \<Rightarrow> bool" where
  "keepsGated api g st st' = (callsGated api g st \<longrightarrow> callsGated api g st')"

text \<open>
  A result raises only objects; and a host throws only objects: whatever its library
  functions and its calls raise is an object, as an Error is.
\<close>

definition raisesObjects :: "js_error + 'a \<Rightarrow> bool" where
  "raisesObjects r = (case r of Inl err \<Rightarrow> isObjectError err | Inr v \<Rightarrow> True)"



definition quietHost :: host_outcome where
  "quietHost tr c = None"



definition lockedState :: host_state where
  "lockedState = \<lparr>calls = [], console = [], locked = (\<lambda>c. True)\<rparr>"

definition staleItem :: entity where
  "staleItem = \<lparr>name = ''Sword'', ident = ''i1'', data = weaponItem\<rparr>"

definition migratedItem :: entity where
  "migratedItem = \<lparr>name = ''Lore'', ident = ''i2'', data = focusItem\<rparr>"


definition itemPack :: pack where
  "itemPack = \<lparr>metadata_package = ''world'', metadata_entity = ''Item'',
     collection = ''world.gear'', content = [staleItem, migratedItem]\<rparr>"

definition smallWorld :: game where
  "smallWorld = \<lparr>actors = [], items = [staleItem, migratedItem], scenes = [],
     packs = [itemPack], version = ''0.1''\<rparr>"






section \<open>Basic facts\<close>

lemma bindE_simps [simp]:
  "bindE (Inl e) f = Inl e"
  "bindE (Inr v) f = f v"
  by (simp_all add: bindE_def)

lemma keys_setKey: "fst ` set (setKey k v u) = insert k (fst ` set u)"
  by (simp add: setKey_def AList.dom_update)

lemma mapE_Inr_iff:
  "mapE f xs = Inr ys \<longleftrightarrow> list_all2 (\<lambda>x y. f x = Inr y) xs ys"
proof (induction xs arbitrary: ys)
  case Nil
  then show ?case by auto
next
  case (Cons x xs)
  show ?case
  proof (cases ys)
    case Nil
    then show ?thesis by (auto simp add: bindE_def split: sum.splits)
  next
    case (Cons y zs)
    have "mapE f (x # xs) = Inr (y # zs) \<longleftrightarrow> f x = Inr y \<and> mapE f xs = Inr zs"
      by (auto simp add: bindE_def split: sum.splits)
    then show ?thesis using Cons.IH[of zs] Cons by simp
  qed
qed

lemma mapE_nth:
  assumes "mapE f xs = Inr ys" "i < length xs"
  shows "length ys = length xs \<and> f (xs ! i) = Inr (ys ! i)"
  using assms by (simp add: mapE_Inr_iff list_all2_conv_all_nth)

lemma mapE_total:
  assumes "\<forall>x\<in>set xs. \<exists>y. f x = Inr y"
  shows "\<exists>ys. mapE f xs = Inr ys"
  using assms by (induction xs) auto

section \<open>The Item Patch Function: what it adds, and when it raises\<close>

lemma addItemModSpeed_excluded:
  assumes "getProp (Some item) ''type'' = Inr (Some (JStr s))" "s \<in> set speedExcluded"
  shows "addItemModSpeed item u = Inr u"
  using assms by (auto simp add: addItemModSpeed_def speedExcluded_def)

lemma nonpower_helpers:
  assumes "getProp (Some item) ''type'' = Inr ty" "ty \<noteq> Some (JStr ''power'')"
  shows "addExtraPowerData item u = Inr u"
    "addItemValidResistedDmgAbl item u = Inr u"
    "addItemForceAbl item u = Inr u"
  using assms
  by (simp_all add: addExtraPowerData_def addItemValidResistedDmgAbl_def addItemForceAbl_def)

lemma addItemModSpeed_cases:
  "addItemModSpeed item u = Inr v \<Longrightarrow>
     v = u \<or> v = setKey ''data.itemMods.speed.value'' (JNum 0)
                  (setKey ''data.itemMods.speed.isActive'' (JBool False)
                  (setKey ''data.itemMods.speed'' (JObj []) u))"
  by (auto simp add: addItemModSpeed_def bindE_def split: sum.splits if_splits)

lemma addItemModSpeed_keys:
  assumes "addItemModSpeed item u = Inr v"
  shows "fst ` set v \<subseteq> fst ` set u \<union> set speedKeys"
  using addItemModSpeed_cases[OF assms]
  by (elim disjE) (auto simp add: keys_setKey speedKeys_def)

lemma migrateItemData_nonpower:
  assumes "getProp (Some item) ''type'' = Inr ty" "ty \<noteq> Some (JStr ''power'')"
  shows "migrateItemData item = addItemModSpeed item []"
proof (cases "addItemModSpeed item []")
  case (Inl e)
  then show ?thesis by (simp add: migrateItemData_def)
next
  case (Inr u)
  then show ?thesis by (simp add: migrateItemData_def nonpower_helpers[OF assms])
qed

text \<open>
  Claim C3 (end-to-end example 1). The specification has the Item Patch Function return,
  for the item \<^verbatim>\<open>{type: "power", data: {}}\<close>, a patch with the speed default, the
  \<^verbatim>\<open>ablFatigue\<close> bundle and \<^verbatim>\<open>itemForceAbl\<close>. The code returns no patch: line 256 reads
  \<^verbatim>\<open>item.data.itemMods.speed\<close>, \<^verbatim>\<open>item.data.itemMods\<close> is \<^verbatim>\<open>undefined\<close>, and the read raises
  a TypeError.
\<close>

theorem power_item_without_itemMods_raises:
  "migrateItemData powerItem = Inl (TypeError ''speed'')"
  by (simp add: powerItem_def migrateItemData_def addItemModSpeed_def)

text \<open>
  Claim C10. For every item record whose subtype is not one of focus, honorifics,
  relationship, membership and stunts, and whose data has no \<^verbatim>\<open>itemMods\<close> field, the Item
  Patch Function does not return: it raises the TypeError of the read of \<^verbatim>\<open>speed\<close> on
  \<^verbatim>\<open>undefined\<close>.
\<close>

theorem item_without_itemMods_raises:
  assumes "map_of kvs ''type'' \<notin> (\<lambda>s. Some (JStr s)) ` set speedExcluded"
    and "map_of kvs ''data'' = Some (JObj dkvs)"
    and "map_of dkvs ''itemMods'' = None"
  shows "migrateItemData (JObj kvs) = Inl (TypeError ''speed'')"
  using assms by (auto simp add: migrateItemData_def addItemModSpeed_def speedExcluded_def)

theorem item_without_itemMods_raises_witness:
  "map_of bareWeaponItem ''type'' \<notin> (\<lambda>s. Some (JStr s)) ` set speedExcluded
   \<and> map_of bareWeaponItem ''data'' = Some (JObj [])
   \<and> map_of [] ''itemMods'' = (None :: json option)
   \<and> migrateItemData (JObj bareWeaponItem) = Inl (TypeError ''speed'')"
proof -
  have h1: "map_of bareWeaponItem ''type'' \<notin> (\<lambda>s. Some (JStr s)) ` set speedExcluded"
    by (simp add: bareWeaponItem_def speedExcluded_def)
  have h2: "map_of bareWeaponItem ''data'' = Some (JObj [])"
    by (simp add: bareWeaponItem_def)
  have h3: "map_of [] ''itemMods'' = (None :: json option)"
    by simp
  from h1 h2 h3 item_without_itemMods_raises[OF h1 h2 h3] show ?thesis by simp
qed

text \<open>
  Claim C6 (subtype gating). For an item of one of the five excluded subtypes,
  \<^verbatim>\<open>_addItemModSpeed\<close> hands the patch back as it got it, and the whole Item Patch Function
  returns the empty patch. For an item whose subtype is anything other than power, each of
  the three power helpers hands the patch back as it got it, the Item Patch Function is
  the speed helper alone, and every key of a patch it returns is a key of the speed
  default and no key of a power-only field. Where the subtype cannot be read at all, the
  function raises and adds nothing.
\<close>

theorem item_subtype_gating:
  "(getProp (Some item) ''type'' = Inr (Some (JStr s)) \<and> s \<in> set speedExcluded
      \<longrightarrow> addItemModSpeed item u = Inr u \<and> migrateItemData item = Inr [])
   \<and> (getProp (Some item) ''type'' = Inr ty \<and> ty \<noteq> Some (JStr ''power'')
      \<longrightarrow> addItemValidResistedDmgAbl item u = Inr u
        \<and> addExtraPowerData item u = Inr u
        \<and> addItemForceAbl item u = Inr u
        \<and> migrateItemData item = addItemModSpeed item []
        \<and> (\<forall>p. migrateItemData item = Inr p \<longrightarrow>
              set (map fst p) \<subseteq> set speedKeys \<and> set (map fst p) \<inter> set powerKeys = {}))
   \<and> (getProp (Some item) ''type'' = Inl e \<longrightarrow> migrateItemData item = Inl e)"
proof (intro conjI impI allI)
  assume h: "getProp (Some item) ''type'' = Inr (Some (JStr s)) \<and> s \<in> set speedExcluded"
  then show "addItemModSpeed item u = Inr u" by (simp add: addItemModSpeed_excluded)
  from h have "s \<noteq> ''power''" by (auto simp add: speedExcluded_def)
  with h show "migrateItemData item = Inr []"
    by (simp add: migrateItemData_def addItemModSpeed_excluded addExtraPowerData_def
        addItemValidResistedDmgAbl_def addItemForceAbl_def)
next
  assume h: "getProp (Some item) ''type'' = Inr ty \<and> ty \<noteq> Some (JStr ''power'')"
  then show "addItemValidResistedDmgAbl item u = Inr u" by (simp add: nonpower_helpers)
  from h show "addExtraPowerData item u = Inr u" by (simp add: nonpower_helpers)
  from h show "addItemForceAbl item u = Inr u" by (simp add: nonpower_helpers)
  from h show m: "migrateItemData item = addItemModSpeed item []"
    by (simp add: migrateItemData_nonpower)
  fix p assume "migrateItemData item = Inr p"
  with m have "addItemModSpeed item [] = Inr p" by simp
  from addItemModSpeed_keys[OF this] show k: "set (map fst p) \<subseteq> set speedKeys" by simp
  have "set speedKeys \<inter> set powerKeys = {}"
    by (simp add: speedKeys_def powerKeys_def)
  with k show "set (map fst p) \<inter> set powerKeys = {}" by blast
next
  assume "getProp (Some item) ''type'' = Inl e"
  then show "migrateItemData item = Inl e"
    by (simp add: migrateItemData_def addItemModSpeed_def)
qed

theorem item_subtype_gating_witness:
  "addItemModSpeed focusItem [] = Inr [] \<and> migrateItemData focusItem = Inr []
   \<and> migrateItemData weaponItem =
       Inr [(''data.itemMods.speed'', JObj []), (''data.itemMods.speed.isActive'', JBool False),
            (''data.itemMods.speed.value'', JNum 0)]
   \<and> set (map fst [(''data.itemMods.speed'', JObj []),
           (''data.itemMods.speed.isActive'', JBool False),
           (''data.itemMods.speed.value'', JNum 0)]) \<inter> set powerKeys = {}"
proof -
  have f: "getProp (Some focusItem) ''type'' = Inr (Some (JStr ''focus''))
      \<and> ''focus'' \<in> set speedExcluded"
    by (simp add: focusItem_def speedExcluded_def)
  have w: "getProp (Some weaponItem) ''type'' = Inr (Some (JStr ''weapon''))
      \<and> Some (JStr ''weapon'') \<noteq> Some (JStr ''power'')"
    by (simp add: weaponItem_def)
  have p: "migrateItemData weaponItem =
       Inr [(''data.itemMods.speed'', JObj []), (''data.itemMods.speed.isActive'', JBool False),
            (''data.itemMods.speed.value'', JNum 0)]"
    by (simp add: weaponItem_def migrateItemData_def addItemModSpeed_def
        addItemValidResistedDmgAbl_def addExtraPowerData_def addItemForceAbl_def setKey_def)
  note g = item_subtype_gating[of focusItem "''focus''" "[]"]
  from g[THEN conjunct1, THEN mp, OF f]
  have 1: "addItemModSpeed focusItem [] = Inr [] \<and> migrateItemData focusItem = Inr []" .
  note k = item_subtype_gating[of weaponItem _ _ "Some (JStr ''weapon'')",
      THEN conjunct2, THEN conjunct1, THEN mp, OF w]
  note k5 = k[THEN conjunct2, THEN conjunct2, THEN conjunct2, THEN conjunct2,
      THEN spec, THEN mp, OF p, THEN conjunct2]
  from 1 p k5 show ?thesis by (intro conjI) (erule conjunct1, erule conjunct2)
qed

section \<open>The Actor Patch Function: the two helpers that raise\<close>

lemma hasOwnProperty_unbound: "\<exists>e. hasOwnProperty d (unbound x) = Inl e"
  by (cases "(d, unbound x :: js_error + string)" rule: hasOwnProperty.cases)
    (auto simp add: unbound_def)

text \<open>
  A char actor whose data has no truthy \<^verbatim>\<open>conditions\<close>, or a truthy one that is no object
  (which line 219 deletes), reaches the loop of lines 225 to 229, and the loop raises.
\<close>

lemma char_actor_without_mapping_raises:
  assumes "map_of kvs ''type'' = Some (JStr ''char'')"
    and "map_of kvs ''data'' = Some (JObj dkvs)"
    and "\<not> truthy (map_of dkvs ''conditions'') \<or> \<not> typeofObject (map_of dkvs ''conditions'')"
  shows "snd (migrateActorData api (JObj kvs)) = Inl (ReferenceError ''udpateData'')"
  using assms
  by (auto simp add: migrateActorData_def addActorConditions_def conditionsTail_def
      conditions_def unbound_def deleteConditions_def AList.update_conv' AList.delete_conv')

text \<open>
  A char actor whose \<^verbatim>\<open>conditions\<close> is a mapping (with the inherited \<^verbatim>\<open>hasOwnProperty\<close>):
  the helper contributes nothing, whether the mapping is complete or not.
\<close>

lemma char_actor_with_mapping_untouched:
  assumes "map_of kvs ''type'' = Some (JStr ''char'')"
    and "map_of kvs ''data'' = Some (JObj dkvs)"
    and "map_of dkvs ''conditions'' = Some (JObj ckvs)"
    and "map_of ckvs ''hasOwnProperty'' = None"
  shows "addActorConditions (JObj kvs) u = (JObj kvs, Inr u)"
  using assms
  by (auto simp add: addActorConditions_def conditionsTail_def conditions_def split: sum.splits)

text \<open>
  Claim C1. The specification has the Actor Patch Function return, for a char actor
  without a conditions mapping, a patch that sets the condition flags to false. On the
  actor \<^verbatim>\<open>{type: "char", data: {}}\<close> the code returns no patch: line 228 assigns to
  \<^verbatim>\<open>udpateData\<close>, a misspelling of \<^verbatim>\<open>updateData\<close> that nothing declares, and raises a
  ReferenceError in the first iteration.
\<close>

theorem char_actor_without_conditions_raises:
  "snd (migrateActorData api charActor) = Inl (ReferenceError ''udpateData'')"
  by (simp add: charActor_def migrateActorData_def addActorConditions_def conditionsTail_def
      conditions_def unbound_def)

text \<open>
  Claim C2 (end-to-end example 3). The specification has the Actor Patch Function return,
  for the actor \<^verbatim>\<open>{type: "vehicle", data: {}}\<close>, a patch with both custom damages set to 1.
  The code returns no patch: line 243 passes the identifier \<^verbatim>\<open>customSideswipeDmg\<close>, which
  nothing declares, where the property name was meant, and raises a ReferenceError.
\<close>

theorem vehicle_actor_raises:
  "snd (migrateActorData api vehicleActor) = Inl (ReferenceError ''customSideswipeDmg'')"
  by (simp add: vehicleActor_def migrateActorData_def addActorConditions_def
      addVehicleCustomDmg_def unbound_def)

text \<open>
  Claim C4 (idempotence). The specification has the second application of a patch
  function, to the record with the first patch merged in, return the empty patch. For a
  vehicle actor no application returns a patch, whatever the record's data and whatever
  the merge made of it: every vehicle record makes the Actor Patch Function raise.
\<close>

theorem vehicle_actor_never_yields_patch:
  assumes "map_of kvs ''type'' = Some (JStr ''vehicle'')"
  shows "\<exists>e. snd (migrateActorData api (JObj kvs)) = Inl e"
proof -
  have a: "addActorConditions (JObj kvs) [] = (JObj kvs, Inr [])"
    using assms by (simp add: addActorConditions_def)
  obtain e where "hasOwnProperty (map_of kvs ''data'') (unbound ''customSideswipeDmg'') = Inl e"
    using hasOwnProperty_unbound by blast
  then have "addVehicleCustomDmg (JObj kvs) [] = Inl e"
    using assms by (simp add: addVehicleCustomDmg_def)
  with a show ?thesis by (simp add: migrateActorData_def)
qed

theorem vehicle_actor_never_yields_patch_witness:
  "map_of vehicleActorMigrated ''type'' = Some (JStr ''vehicle'')
   \<and> snd (migrateActorData lenientHost (JObj vehicleActorMigrated)) \<noteq> Inr []"
proof -
  have h: "map_of vehicleActorMigrated ''type'' = Some (JStr ''vehicle'')"
    by (simp add: vehicleActorMigrated_def)
  from vehicle_actor_never_yields_patch[OF h, of lenientHost] h show ?thesis by auto
qed

section \<open>The Scene Patch Function: cleared tokens\<close>

lemma clearsToken_clearable:
  "clearable tkvs \<Longrightarrow> clearsToken (JObj tkvs) = Inr True"
  by (auto simp add: clearable_def clearsToken_def)

lemma migrateToken_clearable:
  "clearable tkvs \<Longrightarrow>
     migrateToken api (JObj tkvs) = Inr (JObj (AList.update ''actorData'' (JObj []) tkvs))"
  by (simp add: migrateToken_def clearsToken_clearable)

text \<open>
  Claim C7, as the code has it. Take a scene whose \<^verbatim>\<open>tokens\<close> is a list and a token record
  of it that has no actor id, or is actor-linked, or whose override payload carries no
  data. The callback of the Scene Patch Function turns that token into the same token
  with \<^verbatim>\<open>actorData\<close> replaced by the empty mapping, whatever the payload was. Whenever the
  function returns a patch, the patch is a token list that holds the cleared token at the
  token's place; and it does return a patch when no token of the scene makes the callback
  raise.
\<close>

theorem scene_token_cleared:
  assumes "map_of skvs ''tokens'' = Some (JArr ts)"
    and "i < length ts"
    and "ts ! i = JObj tkvs"
    and "clearable tkvs"
  shows "migrateToken api (ts ! i) = Inr (JObj (AList.update ''actorData'' (JObj []) tkvs))
    \<and> (\<forall>p. migrateSceneData api (JObj skvs) = Inr p \<longrightarrow>
          (\<exists>ts'. p = [(''tokens'', JArr ts')] \<and> length ts' = length ts
             \<and> ts' ! i = JObj (AList.update ''actorData'' (JObj []) tkvs)))
    \<and> ((\<forall>t\<in>set ts. \<exists>t'. migrateToken api t = Inr t') \<longrightarrow>
          (\<exists>p. migrateSceneData api (JObj skvs) = Inr p))"
proof (intro conjI allI impI)
  show tok: "migrateToken api (ts ! i) = Inr (JObj (AList.update ''actorData'' (JObj []) tkvs))"
    using assms(3,4) by (simp add: migrateToken_clearable)
  {
    fix p assume "migrateSceneData api (JObj skvs) = Inr p"
    then obtain ts' where m: "mapE (migrateToken api) ts = Inr ts'"
      and p: "p = [(''tokens'', JArr ts')]"
      using assms(1)
      by (auto simp add: migrateSceneData_def duplicate_def bindE_def split: sum.splits)
    from mapE_nth[OF m assms(2)] tok
    show "\<exists>ts'. p = [(''tokens'', JArr ts')] \<and> length ts' = length ts
             \<and> ts' ! i = JObj (AList.update ''actorData'' (JObj []) tkvs)"
      using p by auto
  }
  {
    assume "\<forall>t\<in>set ts. \<exists>t'. migrateToken api t = Inr t'"
    from mapE_total[OF this] obtain ts' where "mapE (migrateToken api) ts = Inr ts'" by blast
    then show "\<exists>p. migrateSceneData api (JObj skvs) = Inr p"
      using assms(1) by (simp add: migrateSceneData_def duplicate_def)
  }
qed

theorem scene_token_cleared_witness:
  "clearable looseToken
   \<and> migrateToken lenientHost (JObj looseToken) =
       Inr (JObj (AList.update ''actorData'' (JObj []) looseToken))
   \<and> (\<exists>p. migrateSceneData lenientHost (JObj sceneOfLooseToken) = Inr p)"
proof -
  have h1: "map_of sceneOfLooseToken ''tokens'' = Some (JArr [JObj looseToken])"
    by (simp add: sceneOfLooseToken_def)
  have h2: "(0::nat) < length [JObj looseToken]" by simp
  have h3: "[JObj looseToken] ! 0 = JObj looseToken" by simp
  have h4: "clearable looseToken" by (simp add: clearable_def looseToken_def)
  note t = scene_token_cleared[OF h1 h2 h3 h4, of lenientHost]
  from t have a: "migrateToken lenientHost (JObj looseToken) =
       Inr (JObj (AList.update ''actorData'' (JObj []) looseToken))" by simp
  then have "\<forall>t\<in>set [JObj looseToken]. \<exists>t'. migrateToken lenientHost t = Inr t'" by simp
  with t have "\<exists>p. migrateSceneData lenientHost (JObj sceneOfLooseToken) = Inr p" by blast
  with h4 a show ?thesis by blast
qed

text \<open>
  The claim as the specification states it fails where a sibling token raises. In this
  scene the first token has no actor id; the second is an unlinked token whose override
  holds an owned item without \<^verbatim>\<open>itemMods\<close>. The callback raises on the second token, the
  Scene Patch Function raises with it, and no token list is returned.
\<close>

theorem scene_token_cleared_counterexample:
  "clearable looseToken
   \<and> migrateSceneData lenientHost sceneWithBrokenSibling = Inl (TypeError ''speed'')"
  by (simp add: clearable_def looseToken_def migrateSceneData_def sceneWithBrokenSibling_def
      brokenToken_def bareWeaponItem_def duplicate_def migrateToken_def clearsToken_def
      lenientHost_def migrateActorData_def addActorConditions_def addVehicleCustomDmg_def
      migrateOwnedItem_def migrateItemData_def addItemModSpeed_def)

section \<open>Statements: sequencing, loops and handlers\<close>

lemma maintains_skip: "reflp R \<Longrightarrow> maintains R skip"
  by (simp add: maintains_def skip_def reflp_def)

lemma maintains_throw: "reflp R \<Longrightarrow> maintains R (throw e)"
  by (simp add: maintains_def throw_def reflp_def)

lemma maintains_seq:
  assumes "transp R" "maintains R s1" "maintains R s2"
  shows "maintains R (seq s1 s2)"
  unfolding maintains_def
proof
  fix st
  obtain r st1 where a: "s1 st = (r, st1)" by (cases "s1 st")
  from assms(2) a have 1: "R st st1" by (auto simp add: maintains_def dest: spec[of _ st])
  show "R st (snd (seq s1 s2 st))"
  proof (cases r)
    case None
    from assms(3) have "R st1 (snd (s2 st1))" by (simp add: maintains_def)
    with 1 assms(1) have "R st (snd (s2 st1))" by (meson transpD)
    with a None show ?thesis by (simp add: seq_def)
  next
    case (Some e)
    with a 1 show ?thesis by (simp add: seq_def)
  qed
qed

lemma maintains_tryCatch:
  assumes "transp R" "maintains R body" "\<And>e. maintains R (handler e)"
  shows "maintains R (tryCatch body handler)"
  unfolding maintains_def
proof
  fix st
  obtain r st1 where a: "body st = (r, st1)" by (cases "body st")
  from assms(2) a have 1: "R st st1" by (auto simp add: maintains_def dest: spec[of _ st])
  show "R st (snd (tryCatch body handler st))"
  proof (cases r)
    case None
    with a 1 show ?thesis by (simp add: tryCatch_def)
  next
    case (Some e)
    from assms(3)[of e] have "R st1 (snd (handler e st1))" by (simp add: maintains_def)
    with 1 assms(1) have "R st (snd (handler e st1))" by (meson transpD)
    with a Some show ?thesis by (simp add: tryCatch_def)
  qed
qed

lemma maintains_forOf:
  assumes "reflp R" "transp R" "\<And>x. x \<in> set xs \<Longrightarrow> maintains R (body x)"
  shows "maintains R (forOf body xs)"
  using assms(3)
proof (induction xs)
  case Nil
  with assms(1) show ?case by (simp add: maintains_def reflp_def)
next
  case (Cons x xs)
  have b: "maintains R (body x)" using Cons.prems by simp
  have l: "maintains R (forOf body xs)" using Cons by simp
  show ?case unfolding maintains_def
  proof
    fix st
    obtain r st1 where a: "body x st = (r, st1)" by (cases "body x st")
    from b a have 1: "R st st1" by (auto simp add: maintains_def dest: spec[of _ st])
    show "R st (snd (forOf body (x # xs) st))"
    proof (cases r)
      case None
      from l have "R st1 (snd (forOf body xs st1))" by (simp add: maintains_def)
      with 1 assms(2) have "R st (snd (forOf body xs st1))" by (meson transpD)
      with a None show ?thesis by simp
    next
      case (Some e)
      with a 1 show ?thesis by simp
    qed
  qed
qed

lemma maintains_unawaited: "maintains R s \<Longrightarrow> maintains R (unawaited s)"
  by (simp add: maintains_def unawaited_def)

lemma maintains_withPatch:
  assumes "reflp R" "\<And>p. r = Inr p \<Longrightarrow> maintains R (k p)"
  shows "maintains R (withPatch r k)"
  using assms by (cases r) (simp_all add: withPatch_def maintains_throw)









lemma grows_consoleError: "maintains grows (consoleError m e)"
  by (auto simp add: maintains_def grows_def consoleError_def)



section \<open>The example items, evaluated\<close>

lemmas item_defs = migrateItemData_def addItemModSpeed_def addItemValidResistedDmgAbl_def
  addExtraPowerData_def addItemForceAbl_def setKey_def isObjectEmpty_def
  weaponItem_def focusItem_def bareWeaponItem_def

lemmas stmt_defs = seq_def tryCatch_def withPatch_def skip_def throw_def hostCall_def
  unawaited_def consoleLog_def consoleError_def catchHandler_def configure_def Let_def

lemma stale_patch: "migrateItemData (data staleItem) =
    Inr [(''data.itemMods.speed'', JObj []), (''data.itemMods.speed.isActive'', JBool False),
         (''data.itemMods.speed.value'', JNum 0)]"
  by (simp add: item_defs staleItem_def)

lemma migrated_patch: "migrateItemData (data migratedItem) = Inr []"
  by (simp add: item_defs migratedItem_def)


section \<open>The emptiness gate\<close>

lemma reflp_keepsGated: "reflp (keepsGated api g)"
  by (simp add: reflp_def keepsGated_def)

lemma transp_keepsGated: "transp (keepsGated api g)"
  by (simp add: transp_def keepsGated_def)

lemma gated_hostCall:
  "gatedWrite api g c \<Longrightarrow> maintains (keepsGated api g) (hostCall orc c)"
  by (simp add: maintains_def keepsGated_def callsGated_def hostCall_def Let_def)

lemma gated_consoleLog: "maintains (keepsGated api g) (consoleLog m)"
  by (simp add: maintains_def keepsGated_def callsGated_def consoleLog_def)

lemma gated_catchHandler: "maintains (keepsGated api g) (catchHandler m e)"
  by (simp add: maintains_def keepsGated_def callsGated_def catchHandler_def consoleError_def
      throw_def)

lemma gated_configure: "maintains (keepsGated api g) (configure orc p b)"
  by (auto simp add: maintains_def keepsGated_def callsGated_def configure_def hostCall_def Let_def
      split: option.splits)

lemma gated_worldBody:
  assumes "\<And>p. r = Inr p \<Longrightarrow> \<not> isObjectEmpty p \<Longrightarrow> gatedWrite api g (wr p)"
  shows "maintains (keepsGated api g)
     (tryCatch
        (withPatch r (\<lambda>updateData.
           if \<not> isObjectEmpty updateData then seq (consoleLog m) (hostCall orc (wr updateData))
           else skip))
        (\<lambda>err. catchHandler prefix err))"
proof (rule maintains_tryCatch[OF transp_keepsGated])
  show "maintains (keepsGated api g)
     (withPatch r (\<lambda>updateData.
           if \<not> isObjectEmpty updateData then seq (consoleLog m) (hostCall orc (wr updateData))
           else skip))"
  proof (rule maintains_withPatch[OF reflp_keepsGated])
    fix p assume r: "r = Inr p"
    show "maintains (keepsGated api g)
        (if \<not> isObjectEmpty p then seq (consoleLog m) (hostCall orc (wr p)) else skip)"
    proof (cases "isObjectEmpty p")
      case True
      then show ?thesis by (simp add: maintains_skip reflp_keepsGated)
    next
      case False
      with r assms have "gatedWrite api g (wr p)" by simp
      with False show ?thesis
        by (simp add: maintains_seq[OF transp_keepsGated gated_consoleLog gated_hostCall])
    qed
  qed
  show "\<And>e. maintains (keepsGated api g) (catchHandler prefix e)"
    by (rule gated_catchHandler)
qed

lemma gated_actor:
  "a \<in> set (actors g) \<Longrightarrow> maintains (keepsGated api g) (migrateWorldActor api orc a)"
  unfolding migrateWorldActor_def by (rule gated_worldBody) simp

lemma gated_item:
  "i \<in> set (items g) \<Longrightarrow> maintains (keepsGated api g) (migrateWorldItem orc i)"
  unfolding migrateWorldItem_def by (rule gated_worldBody) simp

lemma gated_scene:
  "s \<in> set (scenes g) \<Longrightarrow> maintains (keepsGated api g) (migrateWorldScene api orc s)"
  unfolding migrateWorldScene_def by (rule gated_worldBody) simp

lemma gated_entry:
  assumes "pk \<in> set (packs g)" "ent \<in> set (content pk)"
  shows "maintains (keepsGated api g) (migrateCompendiumEntry api orc pk ent)"
  unfolding migrateCompendiumEntry_def
proof (rule maintains_tryCatch[OF transp_keepsGated])
  show "maintains (keepsGated api g)
     (withPatch (entryPatch api (metadata_entity pk) ent)
       (\<lambda>updateData.
           if isObjectEmpty updateData then skip
           else seq (hostCall orc
                      (UpdateEntity (collection pk)
                        (setKey ''_id'' (JStr (ident ent)) updateData)))
                 (consoleLog
                   (''Migrated '' @ metadata_entity pk @ '' entity '' @ name ent @
                    '' in Compendium '' @ collection pk))))"
  proof (rule maintains_withPatch[OF reflp_keepsGated])
    fix p assume r: "entryPatch api (metadata_entity pk) ent = Inr p"
    show "maintains (keepsGated api g)
        (if isObjectEmpty p then skip
         else seq (hostCall orc
                      (UpdateEntity (collection pk) (setKey ''_id'' (JStr (ident ent)) p)))
                 (consoleLog
                   (''Migrated '' @ metadata_entity pk @ '' entity '' @ name ent @
                    '' in Compendium '' @ collection pk)))"
    proof (cases "isObjectEmpty p")
      case True
      then show ?thesis by (simp add: maintains_skip reflp_keepsGated)
    next
      case False
      with r assms
      have "gatedWrite api g (UpdateEntity (collection pk) (setKey ''_id'' (JStr (ident ent)) p))"
        by auto
      with False show ?thesis
        by (simp add: maintains_seq[OF transp_keepsGated gated_hostCall gated_consoleLog])
    qed
  qed
  show "\<And>e. maintains (keepsGated api g)
          (catchHandler
            (''Failed age-system system migration for entity '' @ name ent @ '' in pack '' @
             collection pk @ '': '') e)"
    by (rule gated_catchHandler)
qed

lemma gated_compendium:
  assumes "pk \<in> set (packs g)"
  shows "maintains (keepsGated api g) (migrateCompendium api orc pk)"
  unfolding maintains_def
proof
  fix st :: host_state
  let ?body = "seq (configure orc pk False)
        (seq (hostCall orc (Migrate (collection pk)))
        (seq (hostCall orc (GetContent (collection pk)))
        (seq (forOf (migrateCompendiumEntry api orc pk) (content pk))
        (seq (unawaited (configure orc pk (locked st (collection pk))))
             (consoleLog (''Migrated all '' @ metadata_entity pk
                @ '' entities from Compendium '' @ collection pk))))))"
  have "maintains (keepsGated api g) ?body"
    by (intro maintains_seq[OF transp_keepsGated] gated_configure gated_hostCall
        maintains_unawaited gated_consoleLog maintains_forOf[OF reflp_keepsGated transp_keepsGated]
        gated_entry[OF assms]) simp_all
  then have "keepsGated api g st (snd (?body st))" by (simp add: maintains_def)
  moreover have "keepsGated api g st st" by (simp add: keepsGated_def)
  ultimately show "keepsGated api g st (snd (migrateCompendium api orc pk st))"
    by (simp add: migrateCompendium_def skip_def Let_def)
qed

lemma gated_pack:
  assumes "pk \<in> set (packs g)"
  shows "maintains (keepsGated api g) (migrateWorldPack api orc pk)"
  using gated_compendium[OF assms]
  by (simp add: migrateWorldPack_def maintains_skip reflp_keepsGated)

lemma gated_world: "maintains (keepsGated api g) (migrateWorld api orc g)"
  unfolding migrateWorld_def
  by (intro maintains_seq[OF transp_keepsGated] gated_hostCall maintains_unawaited
      maintains_forOf[OF reflp_keepsGated transp_keepsGated]
      gated_actor gated_item gated_scene gated_pack) simp_all

lemma empty_worldBody:
  assumes "r = Inr p" "isObjectEmpty p"
  shows "tryCatch
        (withPatch r (\<lambda>updateData.
           if \<not> isObjectEmpty updateData then seq (consoleLog m) (hostCall orc (wr updateData))
           else skip))
        (\<lambda>err. catchHandler prefix err) st = (None, st)"
  using assms by (simp add: tryCatch_def withPatch_def skip_def)

text \<open>
  Claim C5 (emptiness gate). In a migration run that starts with no host call made, every
  write call \<^verbatim>\<open>e.update\<close> or \<^verbatim>\<open>pack.updateEntity\<close> carries a patch that is not empty and
  that is the patch computed for an entity of the world or an entry of a pack (there with
  the \<^verbatim>\<open>_id\<close> added). And an entity whose computed patch has no key is passed over: the
  iteration of its loop, in the orchestrator as in the Compendium Walker, returns the state
  it was given, so it makes no host call at all.
\<close>

theorem empty_patch_makes_no_write:
  "(calls st = [] \<longrightarrow>
      (\<forall>(c, r)\<in>set (calls (snd (migrateWorld api orc g st))). gatedWrite api g c))
   \<and> (isObjectEmpty p \<longrightarrow>
       (snd (migrateActorData api (data e)) = Inr p \<longrightarrow> migrateWorldActor api orc e st = (None, st))
     \<and> (migrateItemData (data e) = Inr p \<longrightarrow> migrateWorldItem orc e st = (None, st))
     \<and> (migrateSceneData api (data e) = Inr p \<longrightarrow> migrateWorldScene api orc e st = (None, st))
     \<and> (entryPatch api (metadata_entity pk) e = Inr p \<longrightarrow>
          migrateCompendiumEntry api orc pk e st = (None, st)))"
proof (intro conjI impI)
  assume "calls st = []"
  then have "callsGated api g st" by (simp add: callsGated_def)
  with gated_world[of api g orc] have "callsGated api g (snd (migrateWorld api orc g st))"
    by (simp add: maintains_def keepsGated_def)
  then show "\<forall>(c, r)\<in>set (calls (snd (migrateWorld api orc g st))). gatedWrite api g c"
    by (simp add: callsGated_def)
next
  assume "isObjectEmpty p" "snd (migrateActorData api (data e)) = Inr p"
  then show "migrateWorldActor api orc e st = (None, st)"
    by (simp add: migrateWorldActor_def empty_worldBody)
next
  assume "isObjectEmpty p" "migrateItemData (data e) = Inr p"
  then show "migrateWorldItem orc e st = (None, st)"
    by (simp add: migrateWorldItem_def empty_worldBody)
next
  assume "isObjectEmpty p" "migrateSceneData api (data e) = Inr p"
  then show "migrateWorldScene api orc e st = (None, st)"
    by (simp add: migrateWorldScene_def empty_worldBody)
next
  assume "isObjectEmpty p" "entryPatch api (metadata_entity pk) e = Inr p"
  then show "migrateCompendiumEntry api orc pk e st = (None, st)"
    by (simp add: migrateCompendiumEntry_def tryCatch_def withPatch_def skip_def)
qed

text \<open>
  The theorem of claim C5 in a world of two items, one stale and one migrated, with a pack
  of the same two: the update of the stale item passes the gate, and the migrated item
  leaves the state as it was.
\<close>

theorem empty_patch_makes_no_write_witness:
  "calls lockedState = []
   \<and> gatedWrite lenientHost smallWorld (Update staleItem
        [(''data.itemMods.speed'', JObj []), (''data.itemMods.speed.isActive'', JBool False),
         (''data.itemMods.speed.value'', JNum 0)])
   \<and> migrateWorldItem quietHost migratedItem lockedState = (None, lockedState)"
proof -
  have h: "calls lockedState = []" by (simp add: lockedState_def)
  have m: "(Update staleItem
        [(''data.itemMods.speed'', JObj []), (''data.itemMods.speed.isActive'', JBool False),
         (''data.itemMods.speed.value'', JNum 0)], None)
      \<in> set (calls (snd (migrateWorld lenientHost quietHost smallWorld lockedState)))"
    by (simp add: migrateWorld_def smallWorld_def migrateWorldItem_def migrateWorldPack_def
        migrateCompendium_def migrateCompendiumEntry_def entryPatch_def itemPack_def
        stale_patch migrated_patch stmt_defs isObjectEmpty_def quietHost_def lockedState_def)
  note t = empty_patch_makes_no_write[of lockedState lenientHost quietHost smallWorld "[]"
      migratedItem itemPack]
  from t h have "\<forall>(c, r)\<in>set (calls (snd (migrateWorld lenientHost quietHost smallWorld lockedState))).
      gatedWrite lenientHost smallWorld c" by blast
  with m have g: "gatedWrite lenientHost smallWorld (Update staleItem
        [(''data.itemMods.speed'', JObj []), (''data.itemMods.speed.isActive'', JBool False),
         (''data.itemMods.speed.value'', JNum 0)])" by blast
  have "isObjectEmpty []" by (simp add: isObjectEmpty_def)
  with t migrated_patch have n: "migrateWorldItem quietHost migratedItem lockedState = (None, lockedState)"
    by blast
  from h g n show ?thesis by blast
qed

section \<open>What the patch functions raise\<close>

lemma raisesObjects_Inr [simp]: "raisesObjects (Inr v)"
  by (simp add: raisesObjects_def)

lemma raisesObjects_Inl [simp]: "raisesObjects (Inl err) = isObjectError err"
  by (simp add: raisesObjects_def)






















section \<open>Failures of one entity\<close>











section \<open>Whole runs\<close>
















section \<open>The lock of a pack\<close>











end
